theory Spec2Isabelle
  imports Complex_Main "HOL-Library.AList"
begin

section \<open>BasicBot: a facade over the Binance USDT-M futures API\<close>

text \<open>
  This theory embeds the class \<open>BasicBot\<close> of \<open>basic_bot.py\<close>: its constructor, the four
  validators, the four order-placement methods and the two queries.

  Conventions of the embedding.
  \<^item> Python values that end up in a request or a response are values of \<open>pyval\<close>; a
    \<open>dict\<close> is an association list in insertion order, and a dict display
    \<open>{k1: v1, k2: v2, ...}\<close> inserts its items from left to right, a later item with an
    equal key replacing the value of the earlier one. The keys of the dicts of the source
    are ASCII identifiers and are kept as HOL strings.
  \<^item> A Python \<open>str\<close> is the list of its Unicode code points (\<open>pystr\<close>); \<open>lit\<close> turns a
    string literal of the source into such a list. \<open>str.upper\<close> and \<open>str.strip\<close> are
    those of CPython 3.11 (Unicode 14.0): \<open>upper\<close> replaces every character by its full
    uppercase mapping (one to three characters), \<open>strip\<close> removes the characters that
    \<open>str.isspace\<close> accepts from both ends.
  \<^item> A quantity or price is a Python number (\<open>pynum\<close>): an \<open>int\<close> or a finite \<open>float\<close>
    is its real value, and a \<open>float\<close> can also be \<open>inf\<close>, \<open>-inf\<close> or \<open>nan\<close>. Every order
    comparison with \<open>nan\<close> is \<open>False\<close>.
  \<^item> An exception is a value: its class and the text \<open>str(e)\<close>. Only subclasses of
    \<open>Exception\<close> are modelled.
  \<^item> A method returns the list of calls it made on the Binance client together with
    either the exception that leaves the method or the value it returns.
  \<^item> \<open>datetime.now().isoformat()\<close> is the parameter \<open>now\<close> of each method.
  \<^item> Logging (\<open>self.logger\<close>, \<open>_log_api_request\<close>, \<open>_log_api_response\<close>, \<open>_log_error\<close>,
    \<open>_setup_logging\<close>) and \<open>load_dotenv\<close> are left out: the model is of the runs in which
    no logging call raises. The process environment after \<open>load_dotenv\<close> is the parameter
    \<open>getenv\<close>.
\<close>

subsection \<open>Strings\<close>

type_synonym pystr = "nat list"

definition lit :: "string \<Rightarrow> pystr" where
  "lit s = map of_char s"

text \<open>The code points \<open>c\<close> with \<open>chr(c).isspace()\<close>; \<open>str.strip()\<close> removes exactly these.\<close>

definition spaces :: "nat list" where
  "spaces =
     [0x09, 0x0A, 0x0B, 0x0C, 0x0D, 0x1C, 0x1D, 0x1E, 0x1F, 0x20, 0x85, 0xA0, 0x1680,
      0x2000, 0x2001, 0x2002, 0x2003, 0x2004, 0x2005, 0x2006, 0x2007, 0x2008, 0x2009,
      0x200A, 0x2028, 0x2029, 0x202F, 0x205F, 0x3000]"

definition isspace :: "nat \<Rightarrow> bool" where
  "isspace c = (c \<in> set spaces)"

text \<open>
  The uppercase mapping of the characters beyond ASCII. \<open>upper_ranges\<close> holds the
  characters whose uppercase form is one character: an entry \<open>(lo, hi, step, ulo)\<close> says
  that the characters \<open>lo, lo + step, ..., hi\<close> map to \<open>ulo, ulo + step, ...\<close>.
  \<open>upper_multi\<close> holds the characters whose uppercase form is two or three characters.
  A character in neither table is its own uppercase form.
\<close>

definition upper_ranges :: "(nat \<times> nat \<times> nat \<times> nat) list" where
  "upper_ranges =
    [(0x00B5, 0x00B5, 1, 0x039C), (0x00E0, 0x00F6, 1, 0x00C0), (0x00F8, 0x00FE, 1, 0x00D8),
     (0x00FF, 0x00FF, 1, 0x0178), (0x0101, 0x012F, 2, 0x0100), (0x0131, 0x0131, 1, 0x0049),
     (0x0133, 0x0137, 2, 0x0132), (0x013A, 0x0148, 2, 0x0139), (0x014B, 0x0177, 2, 0x014A),
     (0x017A, 0x017E, 2, 0x0179), (0x017F, 0x017F, 1, 0x0053), (0x0180, 0x0180, 1, 0x0243),
     (0x0183, 0x0185, 2, 0x0182), (0x0188, 0x0188, 1, 0x0187), (0x018C, 0x018C, 1, 0x018B),
     (0x0192, 0x0192, 1, 0x0191), (0x0195, 0x0195, 1, 0x01F6), (0x0199, 0x0199, 1, 0x0198),
     (0x019A, 0x019A, 1, 0x023D), (0x019E, 0x019E, 1, 0x0220), (0x01A1, 0x01A5, 2, 0x01A0),
     (0x01A8, 0x01A8, 1, 0x01A7), (0x01AD, 0x01AD, 1, 0x01AC), (0x01B0, 0x01B0, 1, 0x01AF),
     (0x01B4, 0x01B6, 2, 0x01B3), (0x01B9, 0x01B9, 1, 0x01B8), (0x01BD, 0x01BD, 1, 0x01BC),
     (0x01BF, 0x01BF, 1, 0x01F7), (0x01C5, 0x01C5, 1, 0x01C4), (0x01C6, 0x01C6, 1, 0x01C4),
     (0x01C8, 0x01C8, 1, 0x01C7), (0x01C9, 0x01C9, 1, 0x01C7), (0x01CB, 0x01CB, 1, 0x01CA),
     (0x01CC, 0x01CC, 1, 0x01CA), (0x01CE, 0x01DC, 2, 0x01CD), (0x01DD, 0x01DD, 1, 0x018E),
     (0x01DF, 0x01EF, 2, 0x01DE), (0x01F2, 0x01F2, 1, 0x01F1), (0x01F3, 0x01F3, 1, 0x01F1),
     (0x01F5, 0x01F5, 1, 0x01F4), (0x01F9, 0x021F, 2, 0x01F8), (0x0223, 0x0233, 2, 0x0222),
     (0x023C, 0x023C, 1, 0x023B), (0x023F, 0x0240, 1, 0x2C7E), (0x0242, 0x0242, 1, 0x0241),
     (0x0247, 0x024F, 2, 0x0246), (0x0250, 0x0250, 1, 0x2C6F), (0x0251, 0x0251, 1, 0x2C6D),
     (0x0252, 0x0252, 1, 0x2C70), (0x0253, 0x0253, 1, 0x0181), (0x0254, 0x0254, 1, 0x0186),
     (0x0256, 0x0257, 1, 0x0189), (0x0259, 0x0259, 1, 0x018F), (0x025B, 0x025B, 1, 0x0190),
     (0x025C, 0x025C, 1, 0xA7AB), (0x0260, 0x0260, 1, 0x0193), (0x0261, 0x0261, 1, 0xA7AC),
     (0x0263, 0x0263, 1, 0x0194), (0x0265, 0x0265, 1, 0xA78D), (0x0266, 0x0266, 1, 0xA7AA),
     (0x0268, 0x0268, 1, 0x0197), (0x0269, 0x0269, 1, 0x0196), (0x026A, 0x026A, 1, 0xA7AE),
     (0x026B, 0x026B, 1, 0x2C62), (0x026C, 0x026C, 1, 0xA7AD), (0x026F, 0x026F, 1, 0x019C),
     (0x0271, 0x0271, 1, 0x2C6E), (0x0272, 0x0272, 1, 0x019D), (0x0275, 0x0275, 1, 0x019F),
     (0x027D, 0x027D, 1, 0x2C64), (0x0280, 0x0280, 1, 0x01A6), (0x0282, 0x0282, 1, 0xA7C5),
     (0x0283, 0x0283, 1, 0x01A9), (0x0287, 0x0287, 1, 0xA7B1), (0x0288, 0x0288, 1, 0x01AE),
     (0x0289, 0x0289, 1, 0x0244), (0x028A, 0x028B, 1, 0x01B1), (0x028C, 0x028C, 1, 0x0245),
     (0x0292, 0x0292, 1, 0x01B7), (0x029D, 0x029D, 1, 0xA7B2), (0x029E, 0x029E, 1, 0xA7B0),
     (0x0345, 0x0345, 1, 0x0399), (0x0371, 0x0373, 2, 0x0370), (0x0377, 0x0377, 1, 0x0376),
     (0x037B, 0x037D, 1, 0x03FD), (0x03AC, 0x03AC, 1, 0x0386), (0x03AD, 0x03AF, 1, 0x0388),
     (0x03B1, 0x03C1, 1, 0x0391), (0x03C2, 0x03C2, 1, 0x03A3), (0x03C3, 0x03CB, 1, 0x03A3),
     (0x03CC, 0x03CC, 1, 0x038C), (0x03CD, 0x03CE, 1, 0x038E), (0x03D0, 0x03D0, 1, 0x0392),
     (0x03D1, 0x03D1, 1, 0x0398), (0x03D5, 0x03D5, 1, 0x03A6), (0x03D6, 0x03D6, 1, 0x03A0),
     (0x03D7, 0x03D7, 1, 0x03CF), (0x03D9, 0x03EF, 2, 0x03D8), (0x03F0, 0x03F0, 1, 0x039A),
     (0x03F1, 0x03F1, 1, 0x03A1), (0x03F2, 0x03F2, 1, 0x03F9), (0x03F3, 0x03F3, 1, 0x037F),
     (0x03F5, 0x03F5, 1, 0x0395), (0x03F8, 0x03F8, 1, 0x03F7), (0x03FB, 0x03FB, 1, 0x03FA),
     (0x0430, 0x044F, 1, 0x0410), (0x0450, 0x045F, 1, 0x0400), (0x0461, 0x0481, 2, 0x0460),
     (0x048B, 0x04BF, 2, 0x048A), (0x04C2, 0x04CE, 2, 0x04C1), (0x04CF, 0x04CF, 1, 0x04C0),
     (0x04D1, 0x052F, 2, 0x04D0), (0x0561, 0x0586, 1, 0x0531), (0x10D0, 0x10FA, 1, 0x1C90),
     (0x10FD, 0x10FF, 1, 0x1CBD), (0x13F8, 0x13FD, 1, 0x13F0), (0x1C80, 0x1C80, 1, 0x0412),
     (0x1C81, 0x1C81, 1, 0x0414), (0x1C82, 0x1C82, 1, 0x041E), (0x1C83, 0x1C84, 1, 0x0421),
     (0x1C85, 0x1C85, 1, 0x0422), (0x1C86, 0x1C86, 1, 0x042A), (0x1C87, 0x1C87, 1, 0x0462),
     (0x1C88, 0x1C88, 1, 0xA64A), (0x1D79, 0x1D79, 1, 0xA77D), (0x1D7D, 0x1D7D, 1, 0x2C63),
     (0x1D8E, 0x1D8E, 1, 0xA7C6), (0x1E01, 0x1E95, 2, 0x1E00), (0x1E9B, 0x1E9B, 1, 0x1E60),
     (0x1EA1, 0x1EFF, 2, 0x1EA0), (0x1F00, 0x1F07, 1, 0x1F08), (0x1F10, 0x1F15, 1, 0x1F18),
     (0x1F20, 0x1F27, 1, 0x1F28), (0x1F30, 0x1F37, 1, 0x1F38), (0x1F40, 0x1F45, 1, 0x1F48),
     (0x1F51, 0x1F57, 2, 0x1F59), (0x1F60, 0x1F67, 1, 0x1F68), (0x1F70, 0x1F71, 1, 0x1FBA),
     (0x1F72, 0x1F75, 1, 0x1FC8), (0x1F76, 0x1F77, 1, 0x1FDA), (0x1F78, 0x1F79, 1, 0x1FF8),
     (0x1F7A, 0x1F7B, 1, 0x1FEA), (0x1F7C, 0x1F7D, 1, 0x1FFA), (0x1FB0, 0x1FB1, 1, 0x1FB8),
     (0x1FBE, 0x1FBE, 1, 0x0399), (0x1FD0, 0x1FD1, 1, 0x1FD8), (0x1FE0, 0x1FE1, 1, 0x1FE8),
     (0x1FE5, 0x1FE5, 1, 0x1FEC), (0x214E, 0x214E, 1, 0x2132), (0x2170, 0x217F, 1, 0x2160),
     (0x2184, 0x2184, 1, 0x2183), (0x24D0, 0x24E9, 1, 0x24B6), (0x2C30, 0x2C5F, 1, 0x2C00),
     (0x2C61, 0x2C61, 1, 0x2C60), (0x2C65, 0x2C65, 1, 0x023A), (0x2C66, 0x2C66, 1, 0x023E),
     (0x2C68, 0x2C6C, 2, 0x2C67), (0x2C73, 0x2C73, 1, 0x2C72), (0x2C76, 0x2C76, 1, 0x2C75),
     (0x2C81, 0x2CE3, 2, 0x2C80), (0x2CEC, 0x2CEE, 2, 0x2CEB), (0x2CF3, 0x2CF3, 1, 0x2CF2),
     (0x2D00, 0x2D25, 1, 0x10A0), (0x2D27, 0x2D27, 1, 0x10C7), (0x2D2D, 0x2D2D, 1, 0x10CD),
     (0xA641, 0xA66D, 2, 0xA640), (0xA681, 0xA69B, 2, 0xA680), (0xA723, 0xA72F, 2, 0xA722),
     (0xA733, 0xA76F, 2, 0xA732), (0xA77A, 0xA77C, 2, 0xA779), (0xA77F, 0xA787, 2, 0xA77E),
     (0xA78C, 0xA78C, 1, 0xA78B), (0xA791, 0xA793, 2, 0xA790), (0xA794, 0xA794, 1, 0xA7C4),
     (0xA797, 0xA7A9, 2, 0xA796), (0xA7B5, 0xA7C3, 2, 0xA7B4), (0xA7C8, 0xA7CA, 2, 0xA7C7),
     (0xA7D1, 0xA7D1, 1, 0xA7D0), (0xA7D7, 0xA7D9, 2, 0xA7D6), (0xA7F6, 0xA7F6, 1, 0xA7F5),
     (0xAB53, 0xAB53, 1, 0xA7B3), (0xAB70, 0xABBF, 1, 0x13A0), (0xFF41, 0xFF5A, 1, 0xFF21),
     (0x10428, 0x1044F, 1, 0x10400), (0x104D8, 0x104FB, 1, 0x104B0),
     (0x10597, 0x105BB, 2, 0x10570), (0x10598, 0x105A1, 1, 0x10571),
     (0x105A4, 0x105B1, 1, 0x1057D), (0x105B4, 0x105B9, 1, 0x1058D),
     (0x105BC, 0x105BC, 1, 0x10595), (0x10CC0, 0x10CF2, 1, 0x10C80),
     (0x118C0, 0x118DF, 1, 0x118A0), (0x16E60, 0x16E7F, 1, 0x16E40),
     (0x1E922, 0x1E943, 1, 0x1E900)]"

definition upper_multi :: "(nat \<times> nat list) list" where
  "upper_multi =
    [(0x00DF, [0x0053, 0x0053]), (0x0149, [0x02BC, 0x004E]), (0x01F0, [0x004A, 0x030C]),
     (0x0390, [0x0399, 0x0308, 0x0301]), (0x03B0, [0x03A5, 0x0308, 0x0301]),
     (0x0587, [0x0535, 0x0552]), (0x1E96, [0x0048, 0x0331]), (0x1E97, [0x0054, 0x0308]),
     (0x1E98, [0x0057, 0x030A]), (0x1E99, [0x0059, 0x030A]), (0x1E9A, [0x0041, 0x02BE]),
     (0x1F50, [0x03A5, 0x0313]), (0x1F52, [0x03A5, 0x0313, 0x0300]),
     (0x1F54, [0x03A5, 0x0313, 0x0301]), (0x1F56, [0x03A5, 0x0313, 0x0342]),
     (0x1F80, [0x1F08, 0x0399]), (0x1F81, [0x1F09, 0x0399]), (0x1F82, [0x1F0A, 0x0399]),
     (0x1F83, [0x1F0B, 0x0399]), (0x1F84, [0x1F0C, 0x0399]), (0x1F85, [0x1F0D, 0x0399]),
     (0x1F86, [0x1F0E, 0x0399]), (0x1F87, [0x1F0F, 0x0399]), (0x1F88, [0x1F08, 0x0399]),
     (0x1F89, [0x1F09, 0x0399]), (0x1F8A, [0x1F0A, 0x0399]), (0x1F8B, [0x1F0B, 0x0399]),
     (0x1F8C, [0x1F0C, 0x0399]), (0x1F8D, [0x1F0D, 0x0399]), (0x1F8E, [0x1F0E, 0x0399]),
     (0x1F8F, [0x1F0F, 0x0399]), (0x1F90, [0x1F28, 0x0399]), (0x1F91, [0x1F29, 0x0399]),
     (0x1F92, [0x1F2A, 0x0399]), (0x1F93, [0x1F2B, 0x0399]), (0x1F94, [0x1F2C, 0x0399]),
     (0x1F95, [0x1F2D, 0x0399]), (0x1F96, [0x1F2E, 0x0399]), (0x1F97, [0x1F2F, 0x0399]),
     (0x1F98, [0x1F28, 0x0399]), (0x1F99, [0x1F29, 0x0399]), (0x1F9A, [0x1F2A, 0x0399]),
     (0x1F9B, [0x1F2B, 0x0399]), (0x1F9C, [0x1F2C, 0x0399]), (0x1F9D, [0x1F2D, 0x0399]),
     (0x1F9E, [0x1F2E, 0x0399]), (0x1F9F, [0x1F2F, 0x0399]), (0x1FA0, [0x1F68, 0x0399]),
     (0x1FA1, [0x1F69, 0x0399]), (0x1FA2, [0x1F6A, 0x0399]), (0x1FA3, [0x1F6B, 0x0399]),
     (0x1FA4, [0x1F6C, 0x0399]), (0x1FA5, [0x1F6D, 0x0399]), (0x1FA6, [0x1F6E, 0x0399]),
     (0x1FA7, [0x1F6F, 0x0399]), (0x1FA8, [0x1F68, 0x0399]), (0x1FA9, [0x1F69, 0x0399]),
     (0x1FAA, [0x1F6A, 0x0399]), (0x1FAB, [0x1F6B, 0x0399]), (0x1FAC, [0x1F6C, 0x0399]),
     (0x1FAD, [0x1F6D, 0x0399]), (0x1FAE, [0x1F6E, 0x0399]), (0x1FAF, [0x1F6F, 0x0399]),
     (0x1FB2, [0x1FBA, 0x0399]), (0x1FB3, [0x0391, 0x0399]), (0x1FB4, [0x0386, 0x0399]),
     (0x1FB6, [0x0391, 0x0342]), (0x1FB7, [0x0391, 0x0342, 0x0399]),
     (0x1FBC, [0x0391, 0x0399]), (0x1FC2, [0x1FCA, 0x0399]), (0x1FC3, [0x0397, 0x0399]),
     (0x1FC4, [0x0389, 0x0399]), (0x1FC6, [0x0397, 0x0342]),
     (0x1FC7, [0x0397, 0x0342, 0x0399]), (0x1FCC, [0x0397, 0x0399]),
     (0x1FD2, [0x0399, 0x0308, 0x0300]), (0x1FD3, [0x0399, 0x0308, 0x0301]),
     (0x1FD6, [0x0399, 0x0342]), (0x1FD7, [0x0399, 0x0308, 0x0342]),
     (0x1FE2, [0x03A5, 0x0308, 0x0300]), (0x1FE3, [0x03A5, 0x0308, 0x0301]),
     (0x1FE4, [0x03A1, 0x0313]), (0x1FE6, [0x03A5, 0x0342]),
     (0x1FE7, [0x03A5, 0x0308, 0x0342]), (0x1FF2, [0x1FFA, 0x0399]),
     (0x1FF3, [0x03A9, 0x0399]), (0x1FF4, [0x038F, 0x0399]), (0x1FF6, [0x03A9, 0x0342]),
     (0x1FF7, [0x03A9, 0x0342, 0x0399]), (0x1FFC, [0x03A9, 0x0399]),
     (0xFB00, [0x0046, 0x0046]), (0xFB01, [0x0046, 0x0049]), (0xFB02, [0x0046, 0x004C]),
     (0xFB03, [0x0046, 0x0046, 0x0049]), (0xFB04, [0x0046, 0x0046, 0x004C]),
     (0xFB05, [0x0053, 0x0054]), (0xFB06, [0x0053, 0x0054]), (0xFB13, [0x0544, 0x0546]),
     (0xFB14, [0x0544, 0x0535]), (0xFB15, [0x0544, 0x053B]), (0xFB16, [0x054E, 0x0546]),
     (0xFB17, [0x0544, 0x053D])]"

fun lookup_range :: "(nat \<times> nat \<times> nat \<times> nat) list \<Rightarrow> nat \<Rightarrow> nat option" where
  "lookup_range [] c = None"
| "lookup_range ((lo, hi, step, ulo) # rs) c =
     (if lo \<le> c \<and> c \<le> hi \<and> (c - lo) mod step = 0 then Some (ulo + (c - lo))
      else lookup_range rs c)"

definition upper_char :: "nat \<Rightarrow> pystr" where
  "upper_char c =
     (if c < 128 then (if 97 \<le> c \<and> c \<le> 122 then [c - 32] else [c])
      else (case map_of upper_multi c of
              Some u \<Rightarrow> u
            | None \<Rightarrow>
                (case lookup_range upper_ranges c of Some u \<Rightarrow> [u] | None \<Rightarrow> [c])))"

definition upper :: "pystr \<Rightarrow> pystr" where
  "upper s = concat (map upper_char s)"

definition strip :: "pystr \<Rightarrow> pystr" where
  "strip s = rev (dropWhile isspace (rev (dropWhile isspace s)))"

definition endswith :: "pystr \<Rightarrow> pystr \<Rightarrow> bool" where
  "endswith s suffix =
     (length suffix \<le> length s \<and> drop (length s - length suffix) s = suffix)"

definition quoted :: "pystr \<Rightarrow> pystr" where
  "quoted s = [0x27] @ s @ [0x27]"

subsection \<open>Numbers\<close>

datatype pynum = Finite real | PosInf | NegInf | NaN

text \<open>\<open>x <= y\<close> and \<open>x < y\<close> on Python numbers.\<close>

fun num_le :: "pynum \<Rightarrow> pynum \<Rightarrow> bool" where
  "num_le NaN y = False"
| "num_le x NaN = False"
| "num_le (Finite a) (Finite b) = (a \<le> b)"
| "num_le NegInf y = True"
| "num_le x PosInf = True"
| "num_le x y = False"

fun num_lt :: "pynum \<Rightarrow> pynum \<Rightarrow> bool" where
  "num_lt NaN y = False"
| "num_lt x NaN = False"
| "num_lt (Finite a) (Finite b) = (a < b)"
| "num_lt NegInf NegInf = False"
| "num_lt NegInf y = True"
| "num_lt PosInf y = False"
| "num_lt x PosInf = True"
| "num_lt x y = False"

subsection \<open>Python values and dicts\<close>

datatype pyval =
    PNone
  | PStr pystr
  | PInt int
  | PNum pynum
  | PList "pyval list"
  | PDict "(string \<times> pyval) list"

type_synonym pydict = "(string \<times> pyval) list"

text \<open>A dict display: items are inserted left to right; a repeated key keeps its first
  position and takes the last value.\<close>

definition dict_literal :: "(string \<times> pyval) list \<Rightarrow> pydict" where
  "dict_literal items = foldl (\<lambda>d (k, v). AList.update k v d) [] items"

text \<open>\<open>d.get(k)\<close> and \<open>d.get(k, default)\<close>.\<close>

definition dict_get :: "pydict \<Rightarrow> string \<Rightarrow> pyval" where
  "dict_get d k = (case map_of d k of None \<Rightarrow> PNone | Some v \<Rightarrow> v)"

definition dict_get_default :: "pydict \<Rightarrow> string \<Rightarrow> pyval \<Rightarrow> pyval" where
  "dict_get_default d k dflt = (case map_of d k of None \<Rightarrow> dflt | Some v \<Rightarrow> v)"

subsection \<open>Exceptions and effects\<close>

datatype exn_class =
    ValueError
  | AttributeError
  | BinanceAPIException
  | BinanceOrderException
  | OtherException

datatype exn = Exn (cls: exn_class) (str: pystr)

text \<open>The calls of the source on \<open>self.client\<close>, with their keyword arguments.\<close>

datatype api_call =
    futures_create_order pydict
  | futures_create_oco_order pydict
  | futures_get_order pydict
  | futures_account

text \<open>The Binance client is outside the repository: it answers a call with a response
  dict or raises.\<close>

type_synonym client = "api_call \<Rightarrow> exn + pydict"

type_synonym 'a io = "api_call list \<times> (exn + 'a)"

definition return_io :: "'a \<Rightarrow> 'a io" where
  "return_io x = ([], Inr x)"

definition lift_io :: "exn + 'a \<Rightarrow> 'a io" where
  "lift_io r = ([], r)"

definition bind_io :: "'a io \<Rightarrow> ('a \<Rightarrow> 'b io) \<Rightarrow> 'b io" where
  "bind_io m f =
     (case m of
        (calls, Inl e) \<Rightarrow> (calls, Inl e)
      | (calls, Inr x) \<Rightarrow> (case f x of (calls', r) \<Rightarrow> (calls @ calls', r)))"

subsection \<open>The bot and its constructor\<close>

record BasicBot =
  demo :: bool
  api_key :: "pystr option"
  api_secret :: "pystr option"
  client :: "client option"

text \<open>\<open>a or b\<close> and \<open>not a\<close> on values that are \<open>None\<close> or a string.\<close>

fun py_not :: "pystr option \<Rightarrow> bool" where
  "py_not None = True"
| "py_not (Some s) = (s = [])"

fun the_str :: "pystr option \<Rightarrow> pystr" where
  "the_str None = []"
| "the_str (Some s) = s"

definition py_or :: "pystr option \<Rightarrow> pystr option \<Rightarrow> pystr option" where
  "py_or a b = (if py_not a then b else a)"

text \<open>\<open>BasicBot.__init__\<close>. The constructor of the Binance client is the parameter
  \<open>Client\<close>; \<open>getenv\<close> is \<open>os.getenv\<close>.\<close>

definition credentials_required :: pystr where
  "credentials_required = lit ''API credentials are required. Set BINANCE_API_KEY and BINANCE_API_SECRET environment variables or pass them as parameters.''"

definition init ::
  "(pystr \<Rightarrow> pystr \<Rightarrow> exn + client) \<Rightarrow> (string \<Rightarrow> pystr option) \<Rightarrow>
   pystr option \<Rightarrow> pystr option \<Rightarrow> bool \<Rightarrow> exn + BasicBot" where
  "init Client getenv api_key_arg api_secret_arg demo_arg =
     (if demo_arg then
        Inr \<lparr>demo = True, api_key = None, api_secret = None, client = None\<rparr>
      else
        (let key = py_or api_key_arg (getenv ''BINANCE_API_KEY'');
             secret = py_or api_secret_arg (getenv ''BINANCE_API_SECRET'')
         in if py_not key \<or> py_not secret then
              Inl (Exn ValueError credentials_required)
            else
              (case Client (the_str key) (the_str secret) of
                 Inl e \<Rightarrow> Inl e
               | Inr c \<Rightarrow>
                   Inr \<lparr>demo = False, api_key = key, api_secret = secret,
                        client = Some c\<rparr>)))"

text \<open>A call \<open>self.client.m(**params)\<close>: on a bot without client (\<open>self.client\<close> is
  \<open>None\<close>) the attribute access raises.\<close>

fun method_name :: "api_call \<Rightarrow> string" where
  "method_name (futures_create_order params) = ''futures_create_order''"
| "method_name (futures_create_oco_order params) = ''futures_create_oco_order''"
| "method_name (futures_get_order params) = ''futures_get_order''"
| "method_name futures_account = ''futures_account''"

definition call_client :: "BasicBot \<Rightarrow> api_call \<Rightarrow> pydict io" where
  "call_client self c =
     (case client self of
        None \<Rightarrow>
          ([], Inl (Exn AttributeError
             (quoted (lit ''NoneType'') @ lit '' object has no attribute ''
              @ quoted (lit (method_name c)))))
      | Some cl \<Rightarrow> ([c], cl c))"

subsection \<open>Validators\<close>

definition validate_symbol :: "pystr \<Rightarrow> exn + pystr" where
  "validate_symbol symbol =
     (if symbol = [] then Inl (Exn ValueError (lit ''Symbol cannot be empty''))
      else
        (let symbol' = strip (upper symbol)
         in if \<not> endswith symbol' (lit ''USDT'')
            then Inl (Exn ValueError (lit ''Symbol must end with USDT for USDT-M Futures''))
            else Inr symbol'))"

definition validate_quantity :: "pynum \<Rightarrow> exn + pynum" where
  "validate_quantity quantity =
     (if num_le quantity (Finite 0)
      then Inl (Exn ValueError (lit ''Quantity must be greater than 0''))
      else Inr quantity)"

definition validate_price :: "pynum \<Rightarrow> exn + pynum" where
  "validate_price price =
     (if num_le price (Finite 0)
      then Inl (Exn ValueError (lit ''Price must be greater than 0''))
      else Inr price)"

definition validate_side :: "pystr \<Rightarrow> exn + pystr" where
  "validate_side side =
     (let side' = strip (upper side)
      in if side' \<notin> set [lit ''BUY'', lit ''SELL'']
         then Inl (Exn ValueError
                (lit ''Side must be either '' @ quoted (lit ''BUY'') @ lit '' or ''
                 @ quoted (lit ''SELL'')))
         else Inr side')"

subsection \<open>The handlers of the methods\<close>

text \<open>The dict both \<open>except\<close> clauses of every method return.\<close>

definition error_result :: "exn \<Rightarrow> pystr \<Rightarrow> pydict" where
  "error_result e now =
     dict_literal
       [(''status'', PStr (lit ''ERROR'')),
        (''error'', PStr (str e)),
        (''timestamp'', PStr now)]"

text \<open>\<open>try: ... except (BinanceAPIException, BinanceOrderException) as e: ...
  except Exception as e: ...\<close> of the order-placement methods.\<close>

definition try_order :: "pystr \<Rightarrow> pydict io \<Rightarrow> pydict io" where
  "try_order now body =
     (case body of
        (calls, Inr r) \<Rightarrow> (calls, Inr r)
      | (calls, Inl e) \<Rightarrow>
          (if cls e \<in> set [BinanceAPIException, BinanceOrderException]
           then (calls, Inr (error_result e now))
           else (calls, Inr (error_result e now))))"

text \<open>\<open>try: ... except Exception as e: ...\<close> of the two queries.\<close>

definition try_query :: "pystr \<Rightarrow> pydict io \<Rightarrow> pydict io" where
  "try_query now body =
     (case body of
        (calls, Inr r) \<Rightarrow> (calls, Inr r)
      | (calls, Inl e) \<Rightarrow> (calls, Inr (error_result e now)))"

subsection \<open>Order placement\<close>

definition place_market_order ::
  "BasicBot \<Rightarrow> pystr \<Rightarrow> pystr \<Rightarrow> pynum \<Rightarrow> pystr \<Rightarrow> pydict io" where
  "place_market_order self symbol side quantity now =
     try_order now
       (bind_io (lift_io (validate_symbol symbol)) (\<lambda>symbol.
        bind_io (lift_io (validate_side side)) (\<lambda>side.
        bind_io (lift_io (validate_quantity quantity)) (\<lambda>quantity.
        bind_io
          (if demo self then
             return_io (dict_literal
               [(''orderId'', PInt 123456),
                (''clientOrderId'', PStr (lit ''demo123'')),
                (''avgPrice'', PStr (lit ''50000.00'')),
                (''status'', PStr (lit ''FILLED''))])
           else
             call_client self (futures_create_order (dict_literal
               [(''symbol'', PStr symbol),
                (''side'', PStr side),
                (''type'', PStr (lit ''MARKET'')),
                (''quantity'', PNum quantity)])))
          (\<lambda>response.
             return_io (dict_literal
               [(''status'', PStr (lit ''SUCCESS'')),
                (''order_type'', PStr (lit ''MARKET'')),
                (''symbol'', PStr symbol),
                (''side'', PStr side),
                (''quantity'', PNum quantity),
                (''order_id'', dict_get response ''orderId''),
                (''client_order_id'', dict_get response ''clientOrderId''),
                (''price'', dict_get_default response ''avgPrice'' (PStr (lit ''N/A''))),
                (''status'', dict_get response ''status''),
                (''timestamp'', PStr now),
                (''raw_response'', PDict response)]))))))"

definition place_limit_order ::
  "BasicBot \<Rightarrow> pystr \<Rightarrow> pystr \<Rightarrow> pynum \<Rightarrow> pynum \<Rightarrow> pystr \<Rightarrow> pydict io" where
  "place_limit_order self symbol side quantity price now =
     try_order now
       (bind_io (lift_io (validate_symbol symbol)) (\<lambda>symbol.
        bind_io (lift_io (validate_side side)) (\<lambda>side.
        bind_io (lift_io (validate_quantity quantity)) (\<lambda>quantity.
        bind_io (lift_io (validate_price price)) (\<lambda>price.
        bind_io
          (if demo self then
             return_io (dict_literal
               [(''orderId'', PInt 234567),
                (''clientOrderId'', PStr (lit ''demoLimit'')),
                (''status'', PStr (lit ''NEW''))])
           else
             call_client self (futures_create_order (dict_literal
               [(''symbol'', PStr symbol),
                (''side'', PStr side),
                (''type'', PStr (lit ''LIMIT'')),
                (''timeInForce'', PStr (lit ''GTC'')),
                (''quantity'', PNum quantity),
                (''price'', PNum price)])))
          (\<lambda>response.
             return_io (dict_literal
               [(''status'', PStr (lit ''SUCCESS'')),
                (''order_type'', PStr (lit ''LIMIT'')),
                (''symbol'', PStr symbol),
                (''side'', PStr side),
                (''quantity'', PNum quantity),
                (''price'', PNum price),
                (''order_id'', dict_get response ''orderId''),
                (''client_order_id'', dict_get response ''clientOrderId''),
                (''status'', dict_get response ''status''),
                (''timestamp'', PStr now),
                (''raw_response'', PDict response)])))))))"

definition place_stop_market_order ::
  "BasicBot \<Rightarrow> pystr \<Rightarrow> pystr \<Rightarrow> pynum \<Rightarrow> pynum \<Rightarrow> pystr \<Rightarrow> pydict io" where
  "place_stop_market_order self symbol side quantity stop_price now =
     try_order now
       (bind_io (lift_io (validate_symbol symbol)) (\<lambda>symbol.
        bind_io (lift_io (validate_side side)) (\<lambda>side.
        bind_io (lift_io (validate_quantity quantity)) (\<lambda>quantity.
        bind_io (lift_io (validate_price stop_price)) (\<lambda>stop_price.
        bind_io
          (if demo self then
             return_io (dict_literal
               [(''orderId'', PInt 345678),
                (''clientOrderId'', PStr (lit ''demoStop'')),
                (''status'', PStr (lit ''NEW''))])
           else
             call_client self (futures_create_order (dict_literal
               [(''symbol'', PStr symbol),
                (''side'', PStr side),
                (''type'', PStr (lit ''STOP_MARKET'')),
                (''quantity'', PNum quantity),
                (''stopPrice'', PNum stop_price)])))
          (\<lambda>response.
             return_io (dict_literal
               [(''status'', PStr (lit ''SUCCESS'')),
                (''order_type'', PStr (lit ''STOP_MARKET'')),
                (''symbol'', PStr symbol),
                (''side'', PStr side),
                (''quantity'', PNum quantity),
                (''stop_price'', PNum stop_price),
                (''order_id'', dict_get response ''orderId''),
                (''client_order_id'', dict_get response ''clientOrderId''),
                (''status'', dict_get response ''status''),
                (''timestamp'', PStr now),
                (''raw_response'', PDict response)])))))))"

definition place_oco_order ::
  "BasicBot \<Rightarrow> pystr \<Rightarrow> pystr \<Rightarrow> pynum \<Rightarrow> pynum \<Rightarrow> pynum \<Rightarrow> pynum \<Rightarrow> pystr \<Rightarrow> pydict io"
  where
  "place_oco_order self symbol side quantity limit_price stop_price stop_limit_price now =
     try_order now
       (bind_io (lift_io (validate_symbol symbol)) (\<lambda>symbol.
        bind_io (lift_io (validate_side side)) (\<lambda>side.
        bind_io (lift_io (validate_quantity quantity)) (\<lambda>quantity.
        bind_io (lift_io (validate_price limit_price)) (\<lambda>limit_price.
        bind_io (lift_io (validate_price stop_price)) (\<lambda>stop_price.
        bind_io (lift_io (validate_price stop_limit_price)) (\<lambda>stop_limit_price.
        bind_io
          (if demo self then
             return_io (dict_literal
               [(''orderListId'', PInt 456789),
                (''contingencyType'', PStr (lit ''OCO'')),
                (''listStatusType'', PStr (lit ''RESPONSE'')),
                (''listOrderStatus'', PStr (lit ''EXEC_STARTED'')),
                (''listClientOrderId'', PStr (lit ''demoOCO''))])
           else
             call_client self (futures_create_oco_order (dict_literal
               [(''symbol'', PStr symbol),
                (''side'', PStr side),
                (''quantity'', PNum quantity),
                (''price'', PNum limit_price),
                (''stopPrice'', PNum stop_price),
                (''stopLimitPrice'', PNum stop_limit_price),
                (''stopLimitTimeInForce'', PStr (lit ''GTC''))])))
          (\<lambda>response.
             return_io (dict_literal
               [(''status'', PStr (lit ''SUCCESS'')),
                (''order_type'', PStr (lit ''OCO'')),
                (''symbol'', PStr symbol),
                (''side'', PStr side),
                (''quantity'', PNum quantity),
                (''limit_price'', PNum limit_price),
                (''stop_price'', PNum stop_price),
                (''stop_limit_price'', PNum stop_limit_price),
                (''order_list_id'', dict_get response ''orderListId''),
                (''contingency_type'', dict_get response ''contingencyType''),
                (''list_status_type'', dict_get response ''listStatusType''),
                (''list_order_status'', dict_get response ''listOrderStatus''),
                (''timestamp'', PStr now),
                (''raw_response'', PDict response)])))))))))"

subsection \<open>Queries\<close>

definition get_account_info :: "BasicBot \<Rightarrow> pystr \<Rightarrow> pydict io" where
  "get_account_info self now =
     try_query now
       (if demo self then
          (let response = dict_literal
             [(''totalWalletBalance'', PStr (lit ''10000.00'')),
              (''totalUnrealizedProfit'', PStr (lit ''0.00'')),
              (''assets'', PList [PDict (dict_literal
                 [(''asset'', PStr (lit ''USDT'')),
                  (''walletBalance'', PStr (lit ''10000.00'')),
                  (''unrealizedProfit'', PStr (lit ''0.00''))])])]
           in return_io (dict_literal
                [(''status'', PStr (lit ''SUCCESS'')),
                 (''account_info'', PDict response),
                 (''timestamp'', PStr now)]))
        else
          bind_io (call_client self futures_account) (\<lambda>response.
            return_io (dict_literal
              [(''status'', PStr (lit ''SUCCESS'')),
               (''account_info'', PDict response),
               (''timestamp'', PStr now)])))"

text \<open>\<open>order_id\<close> is whatever value the caller passes.\<close>

definition get_order_status :: "BasicBot \<Rightarrow> pystr \<Rightarrow> pyval \<Rightarrow> pystr \<Rightarrow> pydict io" where
  "get_order_status self symbol order_id now =
     try_query now
       (bind_io (lift_io (validate_symbol symbol)) (\<lambda>symbol.
        bind_io
          (if demo self then
             return_io (dict_literal
               [(''orderId'', order_id),
                (''symbol'', PStr symbol),
                (''status'', PStr (lit ''FILLED'')),
                (''price'', PStr (lit ''50000.00'')),
                (''avgPrice'', PStr (lit ''50000.00'')),
                (''executedQty'', PStr (lit ''0.001''))])
           else
             call_client self (futures_get_order (dict_literal
               [(''symbol'', PStr symbol),
                (''orderId'', order_id)])))
          (\<lambda>response.
             return_io (dict_literal
               [(''status'', PStr (lit ''SUCCESS'')),
                (''order_status'', PDict response),
                (''timestamp'', PStr now)]))))"

text \<open>The bot that \<open>BasicBot(demo=True)\<close> constructs.\<close>

definition demo_bot :: BasicBot where
  "demo_bot = \<lparr>demo = True, api_key = None, api_secret = None, client = None\<rparr>"

text \<open>The spec's wording of the form of a symbol: trimmed, then uppercased.\<close>

definition trimmed_uppercase :: "pystr \<Rightarrow> pystr" where
  "trimmed_uppercase s = upper (strip s)"

text \<open>The bot that \<open>BasicBot(k, s)\<close> constructs around the client \<open>c\<close>.\<close>

definition live_bot :: "pystr \<Rightarrow> pystr \<Rightarrow> client \<Rightarrow> BasicBot" where
  "live_bot k s c = \<lparr>demo = False, api_key = Some k, api_secret = Some s, client = Some c\<rparr>"

text \<open>What a method returned, with the field \<open>timestamp\<close> of the returned dict removed.\<close>

definition except_timestamp :: "pydict io \<Rightarrow> pydict io" where
  "except_timestamp out =
     (case out of (calls, r) \<Rightarrow> (calls, map_sum id (AList.delete ''timestamp'') r))"

text \<open>Checks of the two tables of the uppercase mapping: no white space among the
  characters an entry maps, and none among their uppercase forms.\<close>

definition range_ok :: "nat \<times> nat \<times> nat \<times> nat \<Rightarrow> bool" where
  "range_ok r =
     (case r of (lo, hi, step, ulo) \<Rightarrow>
        list_all (\<lambda>w. (w < lo \<or> hi < w) \<and> (w < ulo \<or> ulo + (hi - lo) < w)) spaces)"

definition multi_ok :: "nat \<times> nat list \<Rightarrow> bool" where
  "multi_ok e =
     (case e of (k, v) \<Rightarrow>
        k \<notin> set spaces \<and> v \<noteq> [] \<and> list_all (\<lambda>x. x \<notin> set spaces) v)"

section \<open>Properties\<close>

lemmas io_defs = return_io_def lift_io_def bind_io_def try_order_def try_query_def
  call_client_def error_result_def dict_literal_def dict_get_def dict_get_default_def

lemmas str_defs = strip_def upper_def upper_char_def isspace_def spaces_def endswith_def
  quoted_def lit_def

lemmas val_defs = validate_symbol_def validate_side_def validate_quantity_def
  validate_price_def

subsection \<open>Strings\<close>

lemma lit_eq_iff: "lit a = lit b \<longleftrightarrow> a = b"
  by (simp add: lit_def inj_map_eq_map [OF inj_of_char])

lemma upper_ranges_ok: "list_all range_ok upper_ranges"
  by (simp add: upper_ranges_def range_ok_def spaces_def)

lemma upper_multi_ok: "list_all multi_ok upper_multi"
  by (simp add: upper_multi_def multi_ok_def spaces_def)

lemma lookup_range_space:
  "list_all range_ok rs \<Longrightarrow> isspace c \<Longrightarrow> lookup_range rs c = None"
proof (induction rs)
  case Nil
  then show ?case by simp
next
  case (Cons r rs)
  obtain lo hi step ulo where r: "r = (lo, hi, step, ulo)"
    by (cases r) auto
  from Cons.prems have "c < lo \<or> hi < c"
    by (auto simp: r range_ok_def isspace_def list_all_iff)
  with Cons show ?case by (auto simp: r)
qed

lemma lookup_range_not_space:
  "list_all range_ok rs \<Longrightarrow> lookup_range rs c = Some u \<Longrightarrow> \<not> isspace u"
proof (induction rs)
  case Nil
  then show ?case by simp
next
  case (Cons r rs)
  obtain lo hi step ulo where r: "r = (lo, hi, step, ulo)"
    by (cases r) auto
  show ?case
  proof (cases "lo \<le> c \<and> c \<le> hi \<and> (c - lo) mod step = 0")
    case True
    with Cons.prems have u: "u = ulo + (c - lo)"
      by (simp add: r)
    show ?thesis
    proof
      assume "isspace u"
      with Cons.prems have "u < ulo \<or> ulo + (hi - lo) < u"
        by (auto simp: r range_ok_def isspace_def list_all_iff)
      with u True show False by auto
    qed
  next
    case False
    with Cons show ?thesis by (simp add: r)
  qed
qed

lemma upper_multi_space: "isspace c \<Longrightarrow> map_of upper_multi c = None"
proof (cases "map_of upper_multi c")
  case None
  then show ?thesis by simp
next
  case (Some v)
  assume "isspace c"
  from Some have "(c, v) \<in> set upper_multi"
    by (rule map_of_SomeD)
  with upper_multi_ok have "multi_ok (c, v)"
    by (simp add: list_all_iff)
  with \<open>isspace c\<close> show ?thesis
    by (simp add: multi_ok_def isspace_def)
qed

lemma upper_multi_not_space:
  assumes "map_of upper_multi c = Some v"
  shows "v \<noteq> [] \<and> list_all (\<lambda>x. \<not> isspace x) v"
proof -
  from assms have "(c, v) \<in> set upper_multi"
    by (rule map_of_SomeD)
  with upper_multi_ok have "multi_ok (c, v)"
    by (simp add: list_all_iff)
  then show ?thesis
    by (simp add: multi_ok_def isspace_def)
qed

lemma ascii_letter_not_space: "97 \<le> c \<Longrightarrow> c \<le> 122 \<Longrightarrow> \<not> isspace c \<and> \<not> isspace (c - 32)"
  by (auto simp: isspace_def spaces_def)

text \<open>White space has no case.\<close>

lemma upper_char_space: "isspace c \<Longrightarrow> upper_char c = [c]"
  using ascii_letter_not_space [of c]
  by (auto simp: upper_char_def upper_multi_space lookup_range_space [OF upper_ranges_ok])

text \<open>The uppercase form of any other character is not empty and has no white space.\<close>

lemma upper_char_not_space:
  assumes "\<not> isspace c"
  shows "upper_char c \<noteq> [] \<and> list_all (\<lambda>x. \<not> isspace x) (upper_char c)"
proof (cases "c < 128")
  case True
  with assms ascii_letter_not_space [of c] show ?thesis
    by (auto simp: upper_char_def)
next
  case False
  show ?thesis
  proof (cases "map_of upper_multi c")
    case (Some v)
    with False upper_multi_not_space [OF Some] show ?thesis
      by (simp add: upper_char_def)
  next
    case None
    show ?thesis
    proof (cases "lookup_range upper_ranges c")
      case (Some u)
      with False None lookup_range_not_space [OF upper_ranges_ok Some] show ?thesis
        by (simp add: upper_char_def)
    next
      case None': None
      with False None assms show ?thesis
        by (simp add: upper_char_def)
    qed
  qed
qed

lemma upper_append: "upper (xs @ ys) = upper xs @ upper ys"
  by (simp add: upper_def)

lemma dropWhile_isspace_upper:
  "dropWhile isspace (upper s) = upper (dropWhile isspace s)"
proof (induction s)
  case Nil
  then show ?case by (simp add: upper_def)
next
  case (Cons c s)
  show ?case
  proof (cases "isspace c")
    case True
    with Cons show ?thesis
      by (simp add: upper_def upper_char_space)
  next
    case False
    from upper_char_not_space [OF False] obtain x xs
      where x: "upper_char c = x # xs" and "\<not> isspace x"
      by (cases "upper_char c") auto
    with False show ?thesis
      by (simp add: upper_def)
  qed
qed

lemma rstrip_upper:
  "rev (dropWhile isspace (rev (upper s))) = upper (rev (dropWhile isspace (rev s)))"
proof (induction s rule: rev_induct)
  case Nil
  then show ?case by (simp add: upper_def)
next
  case (snoc c s)
  show ?case
  proof (cases "isspace c")
    case True
    with snoc show ?thesis
      by (simp add: upper_append) (simp add: upper_def upper_char_space)
  next
    case False
    from upper_char_not_space [OF False] obtain x xs
      where x: "rev (upper_char c) = x # xs" and "\<not> isspace x"
      by (cases "rev (upper_char c)") (auto simp: list_all_iff)
    have "upper [c] = upper_char c"
      by (simp add: upper_def)
    with False x \<open>\<not> isspace x\<close> show ?thesis
      by (simp add: upper_append)
  qed
qed

text \<open>Uppercasing and trimming commute, so the source's \<open>symbol.upper().strip()\<close> is the
  trimmed, uppercased form of the spec.\<close>

lemma strip_upper: "strip (upper s) = trimmed_uppercase s"
  by (simp add: trimmed_uppercase_def strip_def dropWhile_isspace_upper rstrip_upper)

lemma endswith_USDT_nonempty: "endswith s (lit ''USDT'') \<Longrightarrow> s \<noteq> []"
  by (auto simp: endswith_def lit_def)

lemma trimmed_uppercase_Nil: "trimmed_uppercase [] = []"
  by (simp add: trimmed_uppercase_def strip_def upper_def)

subsection \<open>Numbers\<close>

lemma num_lt_zero_not_le: "num_lt (Finite 0) x \<Longrightarrow> \<not> num_le x (Finite 0)"
  by (cases x) auto

lemma num_le_iff_not_lt: "x \<noteq> NaN \<Longrightarrow> num_le x (Finite 0) \<longleftrightarrow> \<not> num_lt (Finite 0) x"
  by (cases x) auto

subsection \<open>The constructor\<close>

lemma init_demo: "init Client getenv api_key_arg api_secret_arg True = Inr demo_bot"
  by (simp add: init_def demo_bot_def)

lemma init_live:
  assumes "k \<noteq> []" and "s \<noteq> []" and "Client k s = Inr c"
  shows "init Client getenv (Some k) (Some s) False = Inr (live_bot k s c)"
  using assms by (simp add: init_def py_or_def live_bot_def)

text \<open>
  C9. In live mode (\<open>demo=False\<close>), when no API key or no API secret comes from the
  parameters or the environment (each is \<open>None\<close> or empty), the constructor raises
  \<open>ValueError\<close>: there is no bot on which a call could return an ERROR result. In
  simulated mode (\<open>demo=True\<close>) the constructor returns a bot, whatever the credentials.
\<close>

theorem init_credentials:
  "((py_not api_key_arg \<and> py_not (getenv ''BINANCE_API_KEY'')) \<or>
    (py_not api_secret_arg \<and> py_not (getenv ''BINANCE_API_SECRET''))
    \<longrightarrow> init Client getenv api_key_arg api_secret_arg False =
          Inl (Exn ValueError credentials_required))
   \<and> init Client getenv api_key_arg api_secret_arg True = Inr demo_bot"
  by (auto simp: init_def py_or_def demo_bot_def Let_def)

theorem init_credentials_witness:
  "((py_not (Some (lit ''key'')) \<and> py_not (Map.empty ''BINANCE_API_KEY'')) \<or>
    (py_not None \<and> py_not (Map.empty ''BINANCE_API_SECRET'')))
   \<and> init (\<lambda>k s. Inr (\<lambda>c. Inr [])) Map.empty (Some (lit ''key'')) None False =
       Inl (Exn ValueError credentials_required)
   \<and> init (\<lambda>k s. Inr (\<lambda>c. Inr [])) Map.empty (Some (lit ''key'')) None True = Inr demo_bot"
  using init_credentials [of "Some (lit ''key'')" Map.empty None "\<lambda>k s. Inr (\<lambda>c. Inr [])"]
  by simp

subsection \<open>Validators\<close>

lemma validate_symbol_iff:
  "validate_symbol s =
     (if trimmed_uppercase s \<noteq> [] \<and> endswith (trimmed_uppercase s) (lit ''USDT'')
      then Inr (trimmed_uppercase s)
      else Inl (Exn ValueError
             (if s = [] then lit ''Symbol cannot be empty''
              else lit ''Symbol must end with USDT for USDT-M Futures'')))"
proof (cases "s = []")
  case True
  then show ?thesis by (simp add: validate_symbol_def trimmed_uppercase_Nil)
next
  case False
  then show ?thesis
    using endswith_USDT_nonempty [of "trimmed_uppercase s"]
    by (auto simp: validate_symbol_def strip_upper Let_def)
qed

lemma validate_symbol_examples:
  "validate_symbol (lit '' btcusdt '') = Inr (lit ''BTCUSDT'')"
  "validate_symbol (lit ''BTCUSD'') =
     Inl (Exn ValueError (lit ''Symbol must end with USDT for USDT-M Futures''))"
  "validate_symbol [] = Inl (Exn ValueError (lit ''Symbol cannot be empty''))"
  by (simp_all add: val_defs str_defs)

text \<open>Beyond ASCII the validator follows Python as well: a trailing no-break space
  (U+00A0) is trimmed, and a sharp s (U+00DF) becomes \<open>SS\<close>.\<close>

lemma validate_symbol_unicode_examples:
  "validate_symbol (lit ''btcusdt'' @ [0xA0]) = Inr (lit ''BTCUSDT'')"
  "validate_symbol ([0xA0] @ lit ''btcusdt'') = Inr (lit ''BTCUSDT'')"
  "validate_symbol ([0xDF] @ lit ''usdt'') = Inr (lit ''SSUSDT'')"
  by (simp_all add: val_defs str_defs upper_multi_def upper_ranges_def)

lemma valid_examples:
  "validate_symbol (lit ''BTCUSDT'') = Inr (lit ''BTCUSDT'')"
  "validate_symbol (lit ''btcusdt'') = Inr (lit ''BTCUSDT'')"
  "validate_symbol (lit ''ethusdt'') = Inr (lit ''ETHUSDT'')"
  "validate_side (lit ''BUY'') = Inr (lit ''BUY'')"
  "validate_side (lit ''buy'') = Inr (lit ''BUY'')"
  "validate_side (lit ''SELL'') = Inr (lit ''SELL'')"
  by (simp_all add: val_defs str_defs)

text \<open>
  C4. For every string \<open>s\<close>, \<open>_validate_symbol\<close> returns the trimmed, uppercased form of
  \<open>s\<close> when that form is non-empty and ends in \<open>USDT\<close>, and raises \<open>ValueError\<close> in every
  other case. So \<open>" btcusdt "\<close> gives \<open>"BTCUSDT"\<close>, and \<open>"BTCUSD"\<close> and the empty string
  raise.
\<close>

theorem validate_symbol_spec:
  "validate_symbol s =
     (if trimmed_uppercase s \<noteq> [] \<and> endswith (trimmed_uppercase s) (lit ''USDT'')
      then Inr (trimmed_uppercase s)
      else Inl (Exn ValueError
             (if s = [] then lit ''Symbol cannot be empty''
              else lit ''Symbol must end with USDT for USDT-M Futures'')))
   \<and> validate_symbol (lit '' btcusdt '') = Inr (lit ''BTCUSDT'')
   \<and> validate_symbol (lit ''BTCUSD'') =
       Inl (Exn ValueError (lit ''Symbol must end with USDT for USDT-M Futures''))
   \<and> validate_symbol [] = Inl (Exn ValueError (lit ''Symbol cannot be empty''))"
  using validate_symbol_iff [of s] validate_symbol_examples by simp

text \<open>Every number other than \<open>nan\<close> passes the two validators exactly when it is
  strictly greater than zero, and is returned unchanged.\<close>

lemma validate_quantity_price_not_nan:
  assumes "x \<noteq> NaN"
  shows "validate_quantity x =
     (if num_lt (Finite 0) x then Inr x
      else Inl (Exn ValueError (lit ''Quantity must be greater than 0'')))"
    and "validate_price x =
     (if num_lt (Finite 0) x then Inr x
      else Inl (Exn ValueError (lit ''Price must be greater than 0'')))"
  using assms
  by (simp_all add: validate_quantity_def validate_price_def num_le_iff_not_lt)

text \<open>
  C6. The claim fails at \<open>nan\<close>. The validators test \<open>quantity <= 0\<close> and \<open>price <= 0\<close>,
  which is \<open>False\<close> on \<open>nan\<close>: \<open>_validate_quantity(float('nan'))\<close> and
  \<open>_validate_price(float('nan'))\<close> return \<open>nan\<close>, although \<open>nan\<close> is not strictly greater
  than zero (\<open>nan > 0\<close> is \<open>False\<close>) and the message of each validator says that the value
  must be greater than 0.
\<close>

theorem validate_nan_accepted:
  "validate_quantity NaN = Inr NaN
   \<and> validate_price NaN = Inr NaN
   \<and> \<not> num_lt (Finite 0) NaN"
  by (simp add: validate_quantity_def validate_price_def)

text \<open>So an order with the quantity \<open>nan\<close> is placed: here a market order in demo mode.\<close>

lemma market_order_nan_quantity:
  "\<exists>r. place_market_order demo_bot (lit ''BTCUSDT'') (lit ''BUY'') NaN now = ([], Inr r)
     \<and> map_of r ''quantity'' = Some (PNum NaN)
     \<and> map_of r ''error'' = None"
  by (simp add: place_market_order_def demo_bot_def io_defs valid_examples
      validate_quantity_def)

subsection \<open>Every method returns\<close>

lemma try_order_returns: "\<exists>calls r. try_order now body = (calls, Inr r)"
  by (cases body) (auto simp: try_order_def split: sum.splits)

lemma try_query_returns: "\<exists>calls r. try_query now body = (calls, Inr r)"
  by (cases body) (auto simp: try_query_def split: sum.splits)

text \<open>Every exception raised in the body of one of the six methods is caught and turned
  into a dict, whatever the bot, the arguments and the behaviour of the client. (The
  handlers themselves call \<open>_log_error\<close>, which is not modelled.)\<close>

lemma methods_return:
  "\<exists>calls r. place_market_order self symbol side quantity now = (calls, Inr r)"
  "\<exists>calls r. place_limit_order self symbol side quantity price now = (calls, Inr r)"
  "\<exists>calls r. place_stop_market_order self symbol side quantity price now = (calls, Inr r)"
  "\<exists>calls r. place_oco_order self symbol side quantity price price' price'' now =
     (calls, Inr r)"
  "\<exists>calls r. get_order_status self symbol order_id now = (calls, Inr r)"
  "\<exists>calls r. get_account_info self now = (calls, Inr r)"
  unfolding place_market_order_def place_limit_order_def place_stop_market_order_def
    place_oco_order_def get_order_status_def get_account_info_def
  by (rule try_order_returns try_query_returns)+

text \<open>An exception inside a method becomes a dict whose \<open>status\<close> is \<open>ERROR\<close>.\<close>

lemma error_result_status:
  "map_of (error_result e now) ''status'' = Some (PStr (lit ''ERROR''))"
  by (simp add: error_result_def dict_literal_def)

subsection \<open>The status field of a placed order\<close>

text \<open>
  C1. The scenario of the claim: \<open>place_market_order("btcusdt", "buy", 0.001)\<close> on a bot in
  demo mode. The returned dict has \<open>order_type=MARKET\<close>, \<open>symbol=BTCUSDT\<close>, \<open>side=BUY\<close> and
  \<open>order_id=123456\<close>, but its \<open>status\<close> is the remote status \<open>FILLED\<close>, not \<open>SUCCESS\<close>: the
  dict display of the source has the key \<open>status\<close> twice, and the second item replaces the
  first. The remote status has no field of its own.
\<close>

theorem market_order_demo_status:
  "place_market_order demo_bot (lit ''btcusdt'') (lit ''buy'') (Finite (1 / 1000)) now =
     ([], Inr
       [(''status'', PStr (lit ''FILLED'')),
        (''order_type'', PStr (lit ''MARKET'')),
        (''symbol'', PStr (lit ''BTCUSDT'')),
        (''side'', PStr (lit ''BUY'')),
        (''quantity'', PNum (Finite (1 / 1000))),
        (''order_id'', PInt 123456),
        (''client_order_id'', PStr (lit ''demo123'')),
        (''price'', PStr (lit ''50000.00'')),
        (''timestamp'', PStr now),
        (''raw_response'', PDict
          [(''orderId'', PInt 123456),
           (''clientOrderId'', PStr (lit ''demo123'')),
           (''avgPrice'', PStr (lit ''50000.00'')),
           (''status'', PStr (lit ''FILLED''))])])"
  by (simp add: place_market_order_def demo_bot_def io_defs valid_examples
      validate_quantity_def)

text \<open>
  C2. The \<open>status\<close> of the dict a method returns is not always \<open>SUCCESS\<close> or
  \<open>ERROR\<close>: \<open>place_limit_order("BTCUSDT", "SELL", 0.001, 50000)\<close> on a bot in demo
  mode returns a dict whose \<open>status\<close> is \<open>NEW\<close>, by the same repeated key as in
  \<open>place_market_order\<close>.
\<close>

theorem limit_order_demo_status:
  "\<exists>r. place_limit_order demo_bot (lit ''BTCUSDT'') (lit ''SELL'') (Finite (1 / 1000)) (Finite 50000) now = ([], Inr r)
     \<and> map_of r ''status'' = Some (PStr (lit ''NEW''))
     \<and> map_of r ''status'' \<noteq> Some (PStr (lit ''SUCCESS''))
     \<and> map_of r ''status'' \<noteq> Some (PStr (lit ''ERROR''))"
  by (simp add: place_limit_order_def demo_bot_def io_defs valid_examples
      validate_quantity_def validate_price_def lit_eq_iff)

subsection \<open>Validation comes before dispatch\<close>

text \<open>
  C5. \<open>place_limit_order\<close> with \<open>price=0\<close> and a valid symbol, side and quantity, on any bot
  (demo or live, whatever its client): the method returns the dict with \<open>status=ERROR\<close> and
  the error text \<open>Price must be greater than 0\<close>, and it made no call on the client. The
  result does not depend on the bot, so neither the canned response nor a live response was
  produced.
\<close>

theorem limit_order_zero_price:
  assumes "validate_symbol symbol = Inr symbol'"
    and "validate_side side = Inr side'"
    and "num_lt (Finite 0) quantity"
  shows "place_limit_order self symbol side quantity (Finite 0) now =
     ([], Inr
       [(''status'', PStr (lit ''ERROR'')),
        (''error'', PStr (lit ''Price must be greater than 0'')),
        (''timestamp'', PStr now)])"
  using assms
  by (simp add: place_limit_order_def io_defs validate_quantity_def validate_price_def
      num_lt_zero_not_le)

theorem limit_order_zero_price_witness:
  "validate_symbol (lit ''BTCUSDT'') = Inr (lit ''BTCUSDT'')
   \<and> validate_side (lit ''BUY'') = Inr (lit ''BUY'')
   \<and> num_lt (Finite 0) (Finite (1 / 1000))
   \<and> place_limit_order (live_bot (lit ''key'') (lit ''secret'') (\<lambda>c. Inr [])) (lit ''BTCUSDT'') (lit ''BUY'')
       (Finite (1 / 1000)) (Finite 0) (lit ''2024-01-01T00:00:00'') =
     ([], Inr
       [(''status'', PStr (lit ''ERROR'')),
        (''error'', PStr (lit ''Price must be greater than 0'')),
        (''timestamp'', PStr (lit ''2024-01-01T00:00:00''))])"
proof -
  have symbol: "validate_symbol (lit ''BTCUSDT'') = Inr (lit ''BTCUSDT'')"
    by (rule valid_examples)
  have side: "validate_side (lit ''BUY'') = Inr (lit ''BUY'')"
    by (rule valid_examples)
  have quantity: "num_lt (Finite 0) (Finite (1 / 1000))"
    by simp
  show ?thesis
    using limit_order_zero_price [OF symbol side quantity] symbol side by simp
qed

subsection \<open>OCO orders\<close>

text \<open>
  C3. \<open>place_oco_order\<close> compares no price with another and none with the side. For every
  valid symbol and side, every valid (strictly positive) quantity and any three strictly
  positive prices, with no condition on their order: on a bot in demo mode the method returns
  the dict with \<open>status=SUCCESS\<close> that echoes the three prices, and on a live bot it makes
  exactly one call \<open>futures_create_oco_order\<close> on the client, carrying the three prices as
  given.
\<close>

theorem oco_no_price_order_check:
  assumes "validate_symbol symbol = Inr symbol'"
    and "validate_side side = Inr side'"
    and "num_lt (Finite 0) quantity"
    and "num_lt (Finite 0) limit_price" and "num_lt (Finite 0) stop_price" and "num_lt (Finite 0) stop_limit_price"
  shows
    "place_oco_order demo_bot symbol side quantity limit_price stop_price stop_limit_price
       now =
     ([], Inr
       [(''status'', PStr (lit ''SUCCESS'')),
        (''order_type'', PStr (lit ''OCO'')),
        (''symbol'', PStr symbol'),
        (''side'', PStr side'),
        (''quantity'', PNum quantity),
        (''limit_price'', PNum limit_price),
        (''stop_price'', PNum stop_price),
        (''stop_limit_price'', PNum stop_limit_price),
        (''order_list_id'', PInt 456789),
        (''contingency_type'', PStr (lit ''OCO'')),
        (''list_status_type'', PStr (lit ''RESPONSE'')),
        (''list_order_status'', PStr (lit ''EXEC_STARTED'')),
        (''timestamp'', PStr now),
        (''raw_response'', PDict
          [(''orderListId'', PInt 456789),
           (''contingencyType'', PStr (lit ''OCO'')),
           (''listStatusType'', PStr (lit ''RESPONSE'')),
           (''listOrderStatus'', PStr (lit ''EXEC_STARTED'')),
           (''listClientOrderId'', PStr (lit ''demoOCO''))])])
     \<and> fst (place_oco_order (live_bot k s c) symbol side quantity limit_price stop_price
              stop_limit_price now) =
       [futures_create_oco_order
          [(''symbol'', PStr symbol'),
           (''side'', PStr side'),
           (''quantity'', PNum quantity),
           (''price'', PNum limit_price),
           (''stopPrice'', PNum stop_price),
           (''stopLimitPrice'', PNum stop_limit_price),
           (''stopLimitTimeInForce'', PStr (lit ''GTC''))]]"
  using assms
  by (simp add: place_oco_order_def demo_bot_def live_bot_def io_defs validate_quantity_def
      validate_price_def num_lt_zero_not_le split: sum.splits)

text \<open>The witness: a BUY whose limit price is below its stop price, and the same BUY with
  the two prices exchanged; both succeed in demo mode and both reach the live client.\<close>

theorem oco_no_price_order_check_witness:
  "validate_symbol (lit ''BTCUSDT'') = Inr (lit ''BTCUSDT'')
   \<and> validate_side (lit ''BUY'') = Inr (lit ''BUY'')
   \<and> num_lt (Finite 0) (Finite (1 / 1000)) \<and> num_lt (Finite 0) (Finite 45000) \<and> num_lt (Finite 0) (Finite 50000)
   \<and> num_lt (Finite 0) (Finite 44900)
   \<and> (\<exists>r. place_oco_order demo_bot (lit ''BTCUSDT'') (lit ''BUY'') (Finite (1 / 1000)) (Finite 45000) (Finite 50000) (Finite 44900) (lit ''t'') =
            ([], Inr r)
          \<and> map_of r ''status'' = Some (PStr (lit ''SUCCESS''))
          \<and> map_of r ''limit_price'' = Some (PNum (Finite 45000))
          \<and> map_of r ''stop_price'' = Some (PNum (Finite 50000)))
   \<and> (\<exists>r. place_oco_order demo_bot (lit ''BTCUSDT'') (lit ''BUY'') (Finite (1 / 1000)) (Finite 50000) (Finite 45000) (Finite 44900) (lit ''t'') =
            ([], Inr r)
          \<and> map_of r ''status'' = Some (PStr (lit ''SUCCESS''))
          \<and> map_of r ''limit_price'' = Some (PNum (Finite 50000))
          \<and> map_of r ''stop_price'' = Some (PNum (Finite 45000)))
   \<and> fst (place_oco_order (live_bot (lit ''key'') (lit ''secret'') (\<lambda>c. Inr [])) (lit ''BTCUSDT'') (lit ''BUY'')
            (Finite (1 / 1000)) (Finite 45000) (Finite 50000) (Finite 44900) (lit ''t'')) =
       [futures_create_oco_order
          [(''symbol'', PStr (lit ''BTCUSDT'')),
           (''side'', PStr (lit ''BUY'')),
           (''quantity'', PNum (Finite (1 / 1000))),
           (''price'', PNum (Finite 45000)),
           (''stopPrice'', PNum (Finite 50000)),
           (''stopLimitPrice'', PNum (Finite 44900)),
           (''stopLimitTimeInForce'', PStr (lit ''GTC''))]]"
proof -
  have symbol: "validate_symbol (lit ''BTCUSDT'') = Inr (lit ''BTCUSDT'')"
    by (rule valid_examples)
  have side: "validate_side (lit ''BUY'') = Inr (lit ''BUY'')"
    by (rule valid_examples)
  have quantity: "num_lt (Finite 0) (Finite (1 / 1000))"
    and low: "num_lt (Finite 0) (Finite 45000)"
    and high: "num_lt (Finite 0) (Finite 50000)"
    and stop_limit: "num_lt (Finite 0) (Finite 44900)"
    by simp_all
  show ?thesis
    using oco_no_price_order_check [OF symbol side quantity low high stop_limit,
        of "lit ''t''" "lit ''key''" "lit ''secret''" "\<lambda>c. Inr []"]
      oco_no_price_order_check [OF symbol side quantity high low stop_limit,
        of "lit ''t''" "lit ''key''" "lit ''secret''" "\<lambda>c. Inr []"]
      symbol side
    by simp
qed

text \<open>
  C8. The scenario of the claim: \<open>place_oco_order("BTCUSDT", "SELL", 0.001, 50000, 45000,
  44900)\<close> on a bot in demo mode returns a dict with \<open>status=SUCCESS\<close>,
  \<open>order_list_id=456789\<close> and \<open>contingency_type=OCO\<close>.
\<close>

theorem oco_demo_scenario:
  "\<exists>r. place_oco_order demo_bot (lit ''BTCUSDT'') (lit ''SELL'') (Finite (1 / 1000)) (Finite 50000) (Finite 45000) (Finite 44900) now =
         ([], Inr r)
       \<and> map_of r ''status'' = Some (PStr (lit ''SUCCESS''))
       \<and> map_of r ''order_list_id'' = Some (PInt 456789)
       \<and> map_of r ''contingency_type'' = Some (PStr (lit ''OCO''))"
  by (simp add: place_oco_order_def demo_bot_def io_defs valid_examples
      validate_quantity_def validate_price_def)

subsection \<open>Order status\<close>

text \<open>
  C10. \<open>get_order_status\<close> checks its symbol and nothing else: for every valid symbol and
  every value of \<open>order_id\<close> whatever (zero, a negative number, or no number at all), the call
  on a bot in demo mode returns \<open>status=SUCCESS\<close>, and the order record inside has that
  \<open>order_id\<close> unchanged as its \<open>orderId\<close>.
\<close>

theorem order_status_echoes_order_id:
  assumes "validate_symbol symbol = Inr symbol'"
  shows "get_order_status demo_bot symbol order_id now =
     ([], Inr
       [(''status'', PStr (lit ''SUCCESS'')),
        (''order_status'', PDict
          [(''orderId'', order_id),
           (''symbol'', PStr symbol'),
           (''status'', PStr (lit ''FILLED'')),
           (''price'', PStr (lit ''50000.00'')),
           (''avgPrice'', PStr (lit ''50000.00'')),
           (''executedQty'', PStr (lit ''0.001''))]),
        (''timestamp'', PStr now)])"
  using assms by (simp add: get_order_status_def demo_bot_def io_defs)

theorem order_status_echoes_order_id_witness:
  "validate_symbol (lit ''ethusdt'') = Inr (lit ''ETHUSDT'')
   \<and> get_order_status demo_bot (lit ''ethusdt'') (PInt (- 7)) (lit ''t'') =
     ([], Inr
       [(''status'', PStr (lit ''SUCCESS'')),
        (''order_status'', PDict
          [(''orderId'', PInt (- 7)),
           (''symbol'', PStr (lit ''ETHUSDT'')),
           (''status'', PStr (lit ''FILLED'')),
           (''price'', PStr (lit ''50000.00'')),
           (''avgPrice'', PStr (lit ''50000.00'')),
           (''executedQty'', PStr (lit ''0.001''))]),
        (''timestamp'', PStr (lit ''t''))])"
proof -
  have symbol: "validate_symbol (lit ''ethusdt'') = Inr (lit ''ETHUSDT'')"
    by (rule valid_examples)
  show ?thesis
    using order_status_echoes_order_id [OF symbol, of "PInt (- 7)" "lit ''t''"] symbol by simp
qed

subsection \<open>Normalization and the clock\<close>

lemma market_order_except_timestamp:
  "except_timestamp (place_market_order self symbol side quantity t1) =
   except_timestamp (place_market_order self symbol side quantity t2)"
  by (simp add: place_market_order_def io_defs except_timestamp_def
      split: sum.splits option.splits prod.splits)

lemma limit_order_except_timestamp:
  "except_timestamp (place_limit_order self symbol side quantity price t1) =
   except_timestamp (place_limit_order self symbol side quantity price t2)"
  by (simp add: place_limit_order_def io_defs except_timestamp_def
      split: sum.splits option.splits prod.splits)

lemma stop_market_order_except_timestamp:
  "except_timestamp (place_stop_market_order self symbol side quantity stop_price t1) =
   except_timestamp (place_stop_market_order self symbol side quantity stop_price t2)"
  by (simp add: place_stop_market_order_def io_defs except_timestamp_def
      split: sum.splits option.splits prod.splits)

lemma oco_order_except_timestamp:
  "except_timestamp
     (place_oco_order self symbol side quantity limit_price stop_price stop_limit_price t1) =
   except_timestamp
     (place_oco_order self symbol side quantity limit_price stop_price stop_limit_price t2)"
  by (simp add: place_oco_order_def io_defs except_timestamp_def
      split: sum.splits option.splits prod.splits)

text \<open>
  C7. Two calls of the same order-placement method on the same bot with the same arguments,
  made at the clock readings \<open>t1\<close> and \<open>t2\<close>, return dicts that are equal once the field
  \<open>timestamp\<close> is removed from both (and make the same calls on the client). This holds for
  each of the four methods, on every bot and for all arguments, so in particular for valid
  arguments on a bot in demo mode.
\<close>

theorem normalization_except_timestamp:
  "except_timestamp (place_market_order self symbol side quantity t1) =
   except_timestamp (place_market_order self symbol side quantity t2)
   \<and> except_timestamp (place_limit_order self symbol side quantity price t1) =
     except_timestamp (place_limit_order self symbol side quantity price t2)
   \<and> except_timestamp (place_stop_market_order self symbol side quantity stop_price t1) =
     except_timestamp (place_stop_market_order self symbol side quantity stop_price t2)
   \<and> except_timestamp
       (place_oco_order self symbol side quantity limit_price stop_price stop_limit_price t1) =
     except_timestamp
       (place_oco_order self symbol side quantity limit_price stop_price stop_limit_price t2)"
  by (simp only: market_order_except_timestamp [of self symbol side quantity t1 t2]
      limit_order_except_timestamp [of self symbol side quantity price t1 t2]
      stop_market_order_except_timestamp [of self symbol side quantity stop_price t1 t2]
      oco_order_except_timestamp
        [of self symbol side quantity limit_price stop_price stop_limit_price t1 t2])

end
